theory Spec2Isabelle
  imports Main "HOL-Library.AList"
begin

section \<open>Values of the Python program\<close>

text \<open>
  The program of \<^verbatim>\<open>LastWork.py\<close> is dynamically typed: what \<^verbatim>\<open>json.load\<close> and
  \<^verbatim>\<open>json.loads\<close> return flows unchecked into the fields of a \<^verbatim>\<open>Task\<close>. The values
  are therefore modelled by one datatype, the Python objects that a JSON document
  denotes: \<^verbatim>\<open>None\<close>, \<^verbatim>\<open>bool\<close>, \<^verbatim>\<open>int\<close>, \<^verbatim>\<open>str\<close>, \<^verbatim>\<open>list\<close> and \<^verbatim>\<open>dict\<close> with string keys
  (an association list in insertion order, its keys distinct). Numbers with a fraction or
  an exponent parse to floats and are left out of the development.
\<close>

datatype json =
    JNull
  | JBool bool
  | JInt int
  | JStr string
  | JList "json list"
  | JDict "(string \<times> json) list"

text \<open>The exceptions that the modelled code can raise.\<close>

datatype exn =
    JSONDecodeError
  | UnicodeDecodeError
  | KeyError
  | TypeError
  | AttributeError

text \<open>Python's truth value of an object, as \<^verbatim>\<open>if x\<close> and \<^verbatim>\<open>not x\<close> compute it.\<close>

fun truthy :: "json \<Rightarrow> bool" where
  "truthy JNull = False"
| "truthy (JBool b) = b"
| "truthy (JInt i) = (i \<noteq> 0)"
| "truthy (JStr s) = (s \<noteq> [])"
| "truthy (JList xs) = (xs \<noteq> [])"
| "truthy (JDict kvs) = (kvs \<noteq> [])"

text \<open>
  Keys of a Python dictionary: a key is hashed, and lists and dictionaries are
  unhashable (\<^verbatim>\<open>TypeError\<close>). \<^verbatim>\<open>True\<close> and \<^verbatim>\<open>1\<close> (and \<^verbatim>\<open>False\<close> and \<^verbatim>\<open>0\<close>) are equal
  and hash alike, so they are the same key.
\<close>

datatype key = KNone | KInt int | KStr string

fun hash_key :: "json \<Rightarrow> exn + key" where
  "hash_key JNull = Inr KNone"
| "hash_key (JBool b) = Inr (KInt (if b then 1 else 0))"
| "hash_key (JInt i) = Inr (KInt i)"
| "hash_key (JStr s) = Inr (KStr s)"
| "hash_key (JList xs) = Inl TypeError"
| "hash_key (JDict kvs) = Inl TypeError"

text \<open>\<^verbatim>\<open>data[k]\<close> for a string \<^verbatim>\<open>k\<close>: only a dictionary can be indexed by a string.\<close>

fun getitem :: "json \<Rightarrow> string \<Rightarrow> exn + json" where
  "getitem (JDict kvs) k = (case map_of kvs k of None \<Rightarrow> Inl KeyError | Some v \<Rightarrow> Inr v)"
| "getitem v k = Inl TypeError"

text \<open>\<^verbatim>\<open>for x in data\<close>: a list yields its elements, a dictionary its keys, a string its
  characters; nothing else is iterable.\<close>

fun iter :: "json \<Rightarrow> exn + json list" where
  "iter (JList xs) = Inr xs"
| "iter (JDict kvs) = Inr (map (\<lambda>kv. JStr (fst kv)) kvs)"
| "iter (JStr s) = Inr (map (\<lambda>c. JStr [c]) s)"
| "iter v = Inl TypeError"




section \<open>Identifiers\<close>

text \<open>\<^verbatim>\<open>str(n)\<close> for a natural number: its decimal digits.\<close>

definition digit :: "nat \<Rightarrow> char" where
  "digit d = ''0123456789'' ! d"

function str :: "nat \<Rightarrow> string" where
  "str n = (if n < 10 then [digit n] else str (n div 10) @ [digit (n mod 10)])"
  by pat_completeness auto
termination
  by (relation "measure (\<lambda>n. n)") auto

declare str.simps [simp del]

text \<open>
  \<^verbatim>\<open>str(uuid.uuid4().int)[:8]\<close>. The random number drawn by \<^verbatim>\<open>uuid.uuid4()\<close> is an input
  of the model: \<open>u\<close> stands for the value \<^verbatim>\<open>uuid.uuid4().int\<close> takes at that call.
  A version 4 UUID is a 128-bit number whose bits 76 to 79 hold the version 4 and whose
  bits 62 and 63 hold the variant \<open>10\<close>.
\<close>

definition new_id :: "nat \<Rightarrow> string" where
  "new_id u = take 8 (str u)"


section \<open>Task\<close>

record Task =
  task_id :: json
  title :: json
  priority :: json
  is_done :: json

definition priorities :: "string list" where
  "priorities = [''low'', ''normal'', ''high'']"

text \<open>\<^verbatim>\<open>Task.__init__\<close>; \<open>u\<close> is the UUID drawn when \<^verbatim>\<open>task_id\<close> is falsy.\<close>

definition Task_init :: "nat \<Rightarrow> json \<Rightarrow> json \<Rightarrow> json \<Rightarrow> json \<Rightarrow> Task" where
  "Task_init u ttl prio done tid =
     \<lparr> task_id = (if truthy tid then tid else JStr (new_id u)),
       title = ttl,
       priority = (if prio \<in> set (map JStr priorities) then prio else JStr ''normal''),
       is_done = done \<rparr>"

definition to_dict :: "Task \<Rightarrow> json" where
  "to_dict t =
     JDict [(''id'', task_id t), (''title'', title t),
            (''priority'', priority t), (''isDone'', is_done t)]"

text \<open>\<^verbatim>\<open>Task.from_dict\<close>: the four subscripts are evaluated in the order written, and the
  first that raises ends the call.\<close>

definition from_dict :: "nat \<Rightarrow> json \<Rightarrow> exn + Task" where
  "from_dict u data =
     (case getitem data ''title'' of Inl e \<Rightarrow> Inl e | Inr ttl \<Rightarrow>
     (case getitem data ''priority'' of Inl e \<Rightarrow> Inl e | Inr prio \<Rightarrow>
     (case getitem data ''isDone'' of Inl e \<Rightarrow> Inl e | Inr done \<Rightarrow>
     (case getitem data ''id'' of Inl e \<Rightarrow> Inl e | Inr tid \<Rightarrow>
        Inr (Task_init u ttl prio done tid)))))"

section \<open>TaskManager\<close>

text \<open>
  \<^verbatim>\<open>self.tasks\<close> is a Python dictionary, which keeps its entries in insertion order:
  an association list. \<^verbatim>\<open>self.tasks[k] = v\<close> replaces the value of an existing key in
  place and appends a new key, which is \<^const>\<open>AList.update\<close>.

  The file \<^verbatim>\<open>tasks.txt\<close> is read by \<^verbatim>\<open>json.load\<close> and written by \<^verbatim>\<open>json.dump\<close>, which
  belong to Python's library. Its content is modelled by what \<^verbatim>\<open>json.load\<close> makes of it:
  bytes that are not UTF-8, a text that is not JSON, or the text of a JSON document;
  \<^verbatim>\<open>json.dump\<close> of a value writes the text of that document.
\<close>

type_synonym store = "(key \<times> Task) list"

datatype file_content = Not_utf8 | Not_json | Doc json

datatype effect = Wrote_file json | Printed_diagnostic

text \<open>The task manager with its surroundings: the dictionary, the file \<^verbatim>\<open>tasks.txt\<close>
  (\<open>None\<close> when it does not exist) and the trace of what was written and printed.\<close>

record world =
  tasks :: store
  data_file :: "file_content option"
  effects :: "effect list"

definition setitem :: "store \<Rightarrow> json \<Rightarrow> Task \<Rightarrow> exn + store" where
  "setitem ts k v = (case hash_key k of Inl e \<Rightarrow> Inl e | Inr h \<Rightarrow> Inr (AList.update h v ts))"


definition get_task :: "world \<Rightarrow> string \<Rightarrow> Task option" where
  "get_task w i = map_of (tasks w) (KStr i)"

definition save_tasks :: "world \<Rightarrow> world" where
  "save_tasks w =
     (let tasks_data = JList (map to_dict (map snd (tasks w)))
      in w\<lparr> data_file := Some (Doc tasks_data),
            effects := effects w @ [Wrote_file tasks_data] \<rparr>)"


text \<open>\<^verbatim>\<open>mark_as_done\<close>: a \<^verbatim>\<open>Task\<close> object defines neither \<^verbatim>\<open>__bool__\<close> nor \<^verbatim>\<open>__len__\<close>, so
  \<^verbatim>\<open>if task\<close> holds exactly when the lookup found one. The assignment changes the object
  that the dictionary holds under that key.\<close>

definition mark_as_done :: "string \<Rightarrow> world \<Rightarrow> bool \<times> world" where
  "mark_as_done i w =
     (case get_task w i of
        Some task \<Rightarrow>
          (True, save_tasks (w\<lparr> tasks := AList.update (KStr i) (task\<lparr> is_done := JBool True \<rparr>) (tasks w) \<rparr>))
      | None \<Rightarrow> (False, w))"

text \<open>The loop of \<^verbatim>\<open>load_tasks\<close>. Building the \<open>k\<close>-th task draws the UUID \<open>g k\<close> when
  the stored id is falsy.\<close>

fun load_loop :: "(nat \<Rightarrow> nat) \<Rightarrow> nat \<Rightarrow> json list \<Rightarrow> store \<Rightarrow> exn + store" where
  "load_loop g k [] ts = Inr ts"
| "load_loop g k (task_data # rest) ts =
     (case from_dict (g k) task_data of
        Inl e \<Rightarrow> Inl e
      | Inr task \<Rightarrow>
          (case setitem ts (task_id task) task of
             Inl e \<Rightarrow> Inl e
           | Inr ts' \<Rightarrow> load_loop g (Suc k) rest ts'))"

text \<open>The body of the \<^verbatim>\<open>try\<close> statement.\<close>

definition load_try :: "(nat \<Rightarrow> nat) \<Rightarrow> file_content \<Rightarrow> store \<Rightarrow> exn + store" where
  "load_try g c ts =
     (case c of
        Not_utf8 \<Rightarrow> Inl UnicodeDecodeError
      | Not_json \<Rightarrow> Inl JSONDecodeError
      | Doc tasks_data \<Rightarrow>
          (case iter tasks_data of
             Inl e \<Rightarrow> Inl e
           | Inr xs \<Rightarrow> load_loop g 0 xs ts))"

text \<open>\<^verbatim>\<open>load_tasks\<close>: the handler catches \<^verbatim>\<open>json.JSONDecodeError\<close> and \<^verbatim>\<open>KeyError\<close>; any other
  exception leaves the function.\<close>

definition load_tasks :: "(nat \<Rightarrow> nat) \<Rightarrow> world \<Rightarrow> exn + world" where
  "load_tasks g w =
     (case data_file w of
        None \<Rightarrow> Inr w
      | Some c \<Rightarrow>
          (case load_try g c (tasks w) of
             Inr ts \<Rightarrow> Inr (w\<lparr> tasks := ts \<rparr>)
           | Inl e \<Rightarrow>
               if e = JSONDecodeError \<or> e = KeyError
               then Inr (w\<lparr> tasks := [], effects := effects w @ [Printed_diagnostic] \<rparr>)
               else Inl e))"

text \<open>\<^verbatim>\<open>TaskManager.__init__\<close>, a fresh store instance started on a given file.\<close>

definition TaskManager_init :: "(nat \<Rightarrow> nat) \<Rightarrow> file_content option \<Rightarrow> exn + world" where
  "TaskManager_init g f = load_tasks g \<lparr> tasks = [], data_file = f, effects = [] \<rparr>"

text \<open>
  What every entry of the dictionary satisfies, whichever way it got there: the task was
  built by \<^const>\<open>Task_init\<close>, so its id is truthy and its priority is one of the three,
  and it is stored under the key of its id.
\<close>

definition entry_ok :: "key \<times> Task \<Rightarrow> bool" where
  "entry_ok kt \<longleftrightarrow>
     truthy (task_id (snd kt)) \<and>
     hash_key (task_id (snd kt)) = Inr (fst kt) \<and>
     priority (snd kt) \<in> set (map JStr priorities)"

definition store_ok :: "store \<Rightarrow> bool" where
  "store_ok ts \<longleftrightarrow> distinct (map fst ts) \<and> list_all entry_ok ts"


section \<open>TaskHandler\<close>














section \<open>Example data\<close>





definition milk :: Task where
  "milk = \<lparr>task_id = JStr ''32496900'', title = JStr ''Buy milk'', priority = JStr ''high'', is_done = JBool False\<rparr>"


definition call :: Task where
  "call = \<lparr>task_id = JStr ''20627072'', title = JStr ''Call home'', priority = JStr ''normal'', is_done = JBool False\<rparr>"



definition call_world :: world where
  "call_world =
     \<lparr>tasks = [(KStr ''32496900'', milk), (KStr ''20627072'', call)],
      data_file = Some (Doc (JList [to_dict milk, to_dict call])),
      effects = [Wrote_file (JList [to_dict milk]), Wrote_file (JList [to_dict milk, to_dict call])]\<rparr>"

definition milk_done :: Task where
  "milk_done = \<lparr>task_id = JStr ''32496900'', title = JStr ''Buy milk'', priority = JStr ''high'', is_done = JBool True\<rparr>"







section \<open>Lists, strings and paths\<close>









section \<open>What every store satisfies\<close>






lemma store_ok_append:
  "store_ok (xs @ [kt]) \<longleftrightarrow> store_ok xs \<and> entry_ok kt \<and> fst kt \<notin> fst ` set xs"
  by (auto simp: store_ok_def)











section \<open>The examples\<close>










lemma get_milk: "get_task call_world ''32496900'' = Some milk"
  by (simp add: get_task_def call_world_def)

section \<open>Identifiers of added tasks\<close>




section \<open>Saving and loading\<close>




section \<open>Loading a damaged file\<close>

lemma load_not_json:
  "TaskManager_init g (Some Not_json) =
     Inr \<lparr>tasks = [], data_file = Some Not_json, effects = [Printed_diagnostic]\<rparr>"
  by (simp add: TaskManager_init_def load_tasks_def load_try_def)

lemma load_missing_field:
  "TaskManager_init g (Some (Doc (JList [JDict [(''title'', JStr ''Buy milk'')]]))) =
     Inr \<lparr>tasks = [], data_file = Some (Doc (JList [JDict [(''title'', JStr ''Buy milk'')]])),
          effects = [Printed_diagnostic]\<rparr>"
  by (simp add: TaskManager_init_def load_tasks_def load_try_def from_dict_def)

text \<open>
  Claim C3 says that \<^verbatim>\<open>load_tasks\<close> never lets an exception escape, whatever the file holds.
  The handler catches \<^verbatim>\<open>JSONDecodeError\<close> and \<^verbatim>\<open>KeyError\<close> only. A file holding the JSON
  document \<^verbatim>\<open>[1]\<close> makes \<^verbatim>\<open>Task.from_dict\<close> subscript the number 1, which raises
  \<^verbatim>\<open>TypeError\<close>, and the constructor of \<^verbatim>\<open>TaskManager\<close> fails with it.
\<close>

theorem load_wrong_shape_raises:
  "TaskManager_init g (Some (Doc (JList [JInt 1]))) = Inl TypeError"
  by (simp add: TaskManager_init_def load_tasks_def load_try_def from_dict_def)

section \<open>The priority of an added task\<close>



section \<open>Marking a task as done\<close>

lemma mark_as_done_found:
  "get_task w i = Some t \<Longrightarrow>
   mark_as_done i w =
     (True, save_tasks (w\<lparr>tasks := AList.update (KStr i) (t\<lparr>is_done := JBool True\<rparr>) (tasks w)\<rparr>))"
  by (simp add: mark_as_done_def)

text \<open>
  Claim C6: when no task has the given id, \<^verbatim>\<open>mark_as_done\<close> returns \<^verbatim>\<open>False\<close> and changes
  nothing: not the dictionary, not the file, and nothing is written.
\<close>

theorem mark_as_done_missing:
  "get_task w i = None \<Longrightarrow> mark_as_done i w = (False, w)"
  by (simp add: mark_as_done_def)

text \<open>
  Claim C6 at a store with two tasks and an id that neither has.
\<close>

theorem mark_as_done_missing_witness:
  "get_task call_world ''unknown-id'' = None \<and>
   mark_as_done ''unknown-id'' call_world = (False, call_world)"
proof -
  have n: "get_task call_world ''unknown-id'' = None"
    by (simp add: get_task_def call_world_def)
  from n mark_as_done_missing [OF n] show ?thesis by simp
qed



text \<open>
  Claim C9: when a task has the given id, \<^verbatim>\<open>mark_as_done\<close> changes only the completion
  flag of that task: its id, title and priority stay, the dictionary has the same keys
  in the same order, and every other key holds the task it held.
\<close>

theorem mark_as_done_frame:
  assumes "get_task w i = Some t"
  shows "\<exists>t'. get_task (snd (mark_as_done i w)) i = Some t' \<and>
           task_id t' = task_id t \<and> title t' = title t \<and> priority t' = priority t \<and>
           is_done t' = JBool True \<and>
           map fst (tasks (snd (mark_as_done i w))) = map fst (tasks w) \<and>
           (\<forall>k. k \<noteq> KStr i \<longrightarrow> map_of (tasks (snd (mark_as_done i w))) k = map_of (tasks w) k)"
proof -
  from assms have "KStr i \<in> fst ` set (tasks w)"
    by (auto simp: get_task_def dest: map_of_SomeD intro: rev_image_eqI)
  then show ?thesis
    using assms
    by (simp add: mark_as_done_found save_tasks_def Let_def get_task_def
        AList.update_conv' AList.update_keys)
qed

text \<open>
  Claim C9 at a store with two tasks.
\<close>

theorem mark_as_done_frame_witness:
  "get_task call_world ''32496900'' = Some milk \<and>
   get_task (snd (mark_as_done ''32496900'' call_world)) ''32496900'' = Some milk_done \<and>
   map fst (tasks (snd (mark_as_done ''32496900'' call_world))) = [KStr ''32496900'', KStr ''20627072''] \<and>
   map_of (tasks (snd (mark_as_done ''32496900'' call_world))) (KStr ''20627072'') = Some call"
proof -
  have c: "map_of (tasks call_world) (KStr ''20627072'') = Some call"
    and k: "map fst (tasks call_world) = [KStr ''32496900'', KStr ''20627072'']"
    by (simp_all add: call_world_def)
  have d: "\<And>t. task_id t = task_id milk \<and> title t = title milk \<and> priority t = priority milk \<and>
      is_done t = JBool True \<Longrightarrow> t = milk_done"
    by (simp add: milk_def milk_done_def)
  from mark_as_done_frame [OF get_milk] obtain t' where
    "get_task (snd (mark_as_done ''32496900'' call_world)) ''32496900'' = Some t'"
    "task_id t' = task_id milk \<and> title t' = title milk \<and> priority t' = priority milk \<and>
      is_done t' = JBool True"
    "map fst (tasks (snd (mark_as_done ''32496900'' call_world))) = map fst (tasks call_world)"
    "\<forall>k. k \<noteq> KStr ''32496900'' \<longrightarrow>
       map_of (tasks (snd (mark_as_done ''32496900'' call_world))) k = map_of (tasks call_world) k"
    by blast
  with get_milk c k d show ?thesis by simp
qed

section \<open>Creating a task by a request\<close>








section \<open>Completing a task by a request\<close>



end
